theory Spec2Isabelle
  imports Complex_Main
begin

section \<open>Solar panel tilt and condition optimizer\<close>

text \<open>
  A shallow embedding of \<^verbatim>\<open>new-ui.py\<close>: the defect-loss table, the label
  normalisation inside \<^verbatim>\<open>classify_image\<close>, and the efficiency model with its
  exhaustive angle search inside \<^verbatim>\<open>compute_best_angle\<close>.

  Conventions of the embedding.
  \<^item> Python floats are read as exact real numbers: \<open>0.76\<close> is \<open>76/100\<close>,
    \<open>3.1\<close> is \<open>31/10\<close> and \<open>0.4\<close> is \<open>4/10\<close>. Rounding errors of IEEE
    doubles, infinities and NaN are outside the model.
  \<^item> Python strings are \<open>string\<close>; a character is a code point below 256. Case
    mapping is the one of the ASCII letters, other characters are left alone.
  \<^item> The remote model call is a parameter \<open>client\<close>: for an image it either raises
    or returns a response whose \<open>text\<close> is absent or a string.
  \<^item> The effects of a call (requests sent to the remote model, lines printed) are
    collected in a \<open>world\<close> record that is passed through.
\<close>

subsection \<open>The defect-loss table\<close>

text \<open>
  \<^verbatim>\<open>DEFECT_LOSS\<close> is a dict literal; Python dicts iterate in insertion order,
  so the table is an association list in the order of the literal.
\<close>

definition DEFECT_LOSS :: "(string \<times> int) list" where
  "DEFECT_LOSS =
     [(''clean'', 0),
      (''dusty'', 20),
      (''bird drop'', 30),
      (''snow covered'', 40),
      (''electrical damage'', 50),
      (''physical damage'', 60)]"

text \<open>\<^verbatim>\<open>DEFECT_LOSS.keys()\<close>\<close>

definition DEFECT_LOSS_keys :: "string list" where
  "DEFECT_LOSS_keys = map fst DEFECT_LOSS"

text \<open>\<^verbatim>\<open>DEFECT_LOSS.get(defect, 0)\<close>\<close>

definition DEFECT_LOSS_get :: "string \<Rightarrow> int \<Rightarrow> int" where
  "DEFECT_LOSS_get defect dflt =
     (case map_of DEFECT_LOSS defect of Some v \<Rightarrow> v | None \<Rightarrow> dflt)"

subsection \<open>String operations of Python used by the program\<close>

definition ascii_uppercase :: string where
  "ascii_uppercase = ''ABCDEFGHIJKLMNOPQRSTUVWXYZ''"

definition ascii_lowercase :: string where
  "ascii_lowercase = ''abcdefghijklmnopqrstuvwxyz''"

definition lower_char :: "char \<Rightarrow> char" where
  "lower_char c =
     (case map_of (zip ascii_uppercase ascii_lowercase) c of Some l \<Rightarrow> l | None \<Rightarrow> c)"

definition upper_char :: "char \<Rightarrow> char" where
  "upper_char c =
     (case map_of (zip ascii_lowercase ascii_uppercase) c of Some u \<Rightarrow> u | None \<Rightarrow> c)"

definition is_cased :: "char \<Rightarrow> bool" where
  "is_cased c = (c \<in> set ascii_uppercase \<or> c \<in> set ascii_lowercase)"

text \<open>\<^verbatim>\<open>str.lower()\<close>\<close>

definition lower :: "string \<Rightarrow> string" where
  "lower s = map lower_char s"

text \<open>
  The characters \<^verbatim>\<open>str.strip()\<close> removes when called without argument: tab, line
  feed, vertical tab, form feed, carriage return, the four separators
  \<^verbatim>\<open>\x1c\<close> to \<^verbatim>\<open>\x1f\<close>, space, next line and no-break space.
\<close>

definition whitespace :: "char list" where
  "whitespace =
     [CHR 0x09, CHR 0x0A, CHR 0x0B, CHR 0x0C, CHR 0x0D,
      CHR 0x1C, CHR 0x1D, CHR 0x1E, CHR 0x1F, CHR 0x20, CHR 0x85, CHR 0xA0]"

definition is_space :: "char \<Rightarrow> bool" where
  "is_space c = (c \<in> set whitespace)"

text \<open>\<^verbatim>\<open>str.strip()\<close>\<close>

definition strip :: "string \<Rightarrow> string" where
  "strip s = rev (dropWhile is_space (rev (dropWhile is_space s)))"

text \<open>
  \<^verbatim>\<open>str.title()\<close>: a cased character is upper-cased when the character before
  it is not cased (or there is none), and lower-cased otherwise. The flag says
  whether the previous character was cased.
\<close>

fun title_from :: "bool \<Rightarrow> string \<Rightarrow> string" where
  "title_from prev [] = []"
| "title_from prev (c # cs) =
     (if is_cased c
      then (if prev then lower_char c else upper_char c) # title_from True cs
      else c # title_from False cs)"

definition title :: "string \<Rightarrow> string" where
  "title s = title_from False s"

text \<open>\<^verbatim>\<open>s.startswith(k)\<close>, used to spell out substring search.\<close>

fun startswith :: "string \<Rightarrow> string \<Rightarrow> bool" where
  "startswith s [] = True"
| "startswith [] (k # ks) = False"
| "startswith (c # cs) (k # ks) = (c = k \<and> startswith cs ks)"

text \<open>\<^verbatim>\<open>k in s\<close> on strings: \<open>k\<close> occurs in \<open>s\<close> at some position.\<close>

fun str_in :: "string \<Rightarrow> string \<Rightarrow> bool" where
  "str_in k [] = (k = [])"
| "str_in k (c # cs) = (startswith (c # cs) k \<or> str_in k cs)"

text \<open>Decimal rendering of a non-negative integer, as an f-string does it.\<close>

definition digit_char :: "nat \<Rightarrow> char" where
  "digit_char d = ''0123456789'' ! d"

function str_nat :: "nat \<Rightarrow> string" where
  "str_nat n = (if n < 10 then [digit_char n] else str_nat (n div 10) @ [digit_char (n mod 10)])"
  by pat_completeness auto
termination
  by (relation "measure id") auto

declare str_nat.simps [simp del]

subsection \<open>The remote classifier and the effects of a call\<close>

text \<open>
  What \<^verbatim>\<open>client.models.generate_content(...)\<close> followed by reading
  \<^verbatim>\<open>response.text\<close> can do: raise an exception (kept as its printed form), or
  deliver a text that may be \<^verbatim>\<open>None\<close>.
\<close>

datatype upstream = Raised string | Response "string option"

record 'img world =
  requests :: "'img list"
  stdout :: "string list"

subsection \<open>\<^verbatim>\<open>classify_image\<close>\<close>

text \<open>
  The loop \<^verbatim>\<open>for possible_defect in DEFECT_LOSS.keys()\<close> with its early return,
  followed by \<^verbatim>\<open>return "clean"\<close>.
\<close>

fun match_label :: "string list \<Rightarrow> string \<Rightarrow> string" where
  "match_label [] label = ''clean''"
| "match_label (possible_defect # rest) label =
     (if str_in possible_defect label then possible_defect else match_label rest label)"

text \<open>The body of the \<^verbatim>\<open>try\<close> block once \<^verbatim>\<open>response.text\<close> is known.\<close>

definition normalize_text :: "string option \<Rightarrow> string" where
  "normalize_text text =
     (case text of
        None \<Rightarrow> ''clean''
      | Some t \<Rightarrow>
          if t = [] then ''clean''
          else match_label DEFECT_LOSS_keys (lower (strip t)))"

definition classify_image ::
  "('img \<Rightarrow> upstream) \<Rightarrow> 'img option \<Rightarrow> 'img world \<Rightarrow> string \<times> 'img world" where
  "classify_image client image_opt w =
     (case image_opt of
        None \<Rightarrow> (''clean'', w)
      | Some img \<Rightarrow>
          (let w1 = w\<lparr>requests := requests w @ [img]\<rparr> in
           case client img of
             Raised e \<Rightarrow>
               (''clean'', w1\<lparr>stdout := stdout w1 @ [''Error during classification: '' @ e]\<rparr>)
           | Response text \<Rightarrow> (normalize_text text, w1)))"

subsection \<open>\<^verbatim>\<open>compute_best_angle\<close>\<close>

definition base_loss :: real where
  "base_loss = 2.0"

definition target_optimal :: "real \<Rightarrow> real" where
  "target_optimal latitude = (latitude * 0.76) + 3.1"

definition angle_deviation_loss :: "real \<Rightarrow> nat \<Rightarrow> real" where
  "angle_deviation_loss target angle = 0.4 * \<bar>target - real angle\<bar>"

text \<open>
  The two assignments to \<^verbatim>\<open>efficiency\<close> in the loop body, for the angle, the
  latitude and the defect loss.
\<close>

definition efficiency :: "nat \<Rightarrow> real \<Rightarrow> real \<Rightarrow> real" where
  "efficiency angle latitude defect_loss =
     (let efficiency0 =
            (100 - base_loss) - defect_loss
              - angle_deviation_loss (target_optimal latitude) angle
      in max 0 (min 99.0 efficiency0))"

text \<open>One iteration of the loop on the pair \<open>(best_angle, best_eff)\<close>.\<close>

definition search_step :: "real \<Rightarrow> real \<Rightarrow> nat \<times> real \<Rightarrow> nat \<Rightarrow> nat \<times> real" where
  "search_step latitude defect_loss best angle =
     (let eff = efficiency angle latitude defect_loss in
      if eff > snd best then (angle, eff) else best)"

text \<open>
  \<^verbatim>\<open>for angle in range(0, 91)\<close> from \<^verbatim>\<open>best_angle = 0\<close>,
  \<^verbatim>\<open>best_eff = -1\<close>.
\<close>

definition search_upto :: "nat \<Rightarrow> real \<Rightarrow> real \<Rightarrow> nat \<times> real" where
  "search_upto n latitude defect_loss =
     foldl (search_step latitude defect_loss) (0, -1) [0..<n]"

definition search :: "real \<Rightarrow> real \<Rightarrow> nat \<times> real" where
  "search latitude defect_loss = search_upto 91 latitude defect_loss"

text \<open>
  \<^verbatim>\<open>round(x, 2)\<close>: to the nearest multiple of one hundredth, a tie going to the
  even one.
\<close>

definition round2 :: "real \<Rightarrow> real" where
  "round2 x =
     (let y = x * 100; f = \<lfloor>y\<rfloor>; r = y - of_int f in
      of_int (if r < 1/2 then f else if r > 1/2 then f + 1
              else if even f then f else f + 1) / 100)"

definition degree_sign :: char where
  "degree_sign = CHR 0xB0"

definition compute_best_angle ::
  "('img \<Rightarrow> upstream) \<Rightarrow> 'img option \<Rightarrow> real option \<Rightarrow> 'img world
     \<Rightarrow> (string \<times> string \<times> real) \<times> 'img world" where
  "compute_best_angle client image_opt latitude_opt w =
     (case (image_opt, latitude_opt) of
        (Some img, Some lat) \<Rightarrow>
          (let (defect, w1) = classify_image client image_opt w;
               defect_loss = DEFECT_LOSS_get defect 0;
               (best_angle, best_eff) = search lat (real_of_int defect_loss)
           in ((str_nat best_angle @ [degree_sign], title defect, round2 best_eff), w1))
      | _ \<Rightarrow> ((''No input'', ''N/A'', 0), w))"

subsection \<open>A clamp written as the specification words it\<close>

definition clamp_spec :: "real \<Rightarrow> real \<Rightarrow> real \<Rightarrow> real" where
  "clamp_spec lo hi x = (if x < lo then lo else if hi < x then hi else x)"

subsection \<open>The invariant of the search loop\<close>

text \<open>
  After the first \<open>n\<close> candidates (\<open>n > 0\<close>) the pair \<open>(best_angle, best_eff)\<close>
  holds a candidate below \<open>n\<close> with its efficiency; no candidate below \<open>n\<close> is
  better, and every earlier candidate is strictly worse.
\<close>

definition search_inv :: "nat \<Rightarrow> real \<Rightarrow> real \<Rightarrow> nat \<times> real \<Rightarrow> bool" where
  "search_inv n L d best =
     (fst best < n \<and> snd best = efficiency (fst best) L d
      \<and> (\<forall>a<n. efficiency a L d \<le> snd best)
      \<and> (\<forall>a<fst best. efficiency a L d < snd best))"

section \<open>Properties\<close>

subsection \<open>The efficiency model\<close>

lemma angle_deviation_loss_nonneg: "0 \<le> angle_deviation_loss t a"
  by (simp add: angle_deviation_loss_def)

lemma efficiency_dev:
  "efficiency a L d = max 0 (min 99 (98 - d - angle_deviation_loss (target_optimal L) a))"
  by (simp add: efficiency_def base_loss_def)

lemma efficiency_unfold:
  "efficiency a L d = max 0 (min 99 (98 - d - 2/5 * \<bar>(L * 19/25 + 31/10) - real a\<bar>))"
  by (simp add: efficiency_def base_loss_def angle_deviation_loss_def target_optimal_def)

lemma efficiency_nonneg: "0 \<le> efficiency a L d"
  by (simp add: efficiency_def)


text \<open>
  C1. For every angle, latitude and condition loss, the efficiency of the loop body
  is \<open>(100 - 2.0) - d - 0.4 * |(L * 0.76 + 3.1) - a|\<close> clamped to \<open>[0, 99.0]\<close>; the
  target angle is \<open>L * 0.76 + 3.1\<close>, and the base loss of 2.0 is subtracted whatever
  the inputs are.
\<close>

theorem efficiency_formula:
  "efficiency a L d
     = clamp_spec 0 99.0 ((100 - 2.0) - d - 0.4 * \<bar>(L * 0.76 + 3.1) - real a\<bar>)
   \<and> target_optimal L = L * 0.76 + 3.1
   \<and> base_loss = 2.0"
  by (simp add: efficiency_unfold clamp_spec_def target_optimal_def base_loss_def
      max_def min_def)



text \<open>
  C7. The efficiency is a function of its arguments that does not increase when the
  deviation from the target angle or the condition loss grows; it never exceeds
  99.0, and with condition loss 0 it never exceeds 98.0.
\<close>

theorem efficiency_monotone_bounded:
  "(\<bar>target_optimal L - real a\<bar> \<le> \<bar>target_optimal L' - real a'\<bar> \<and> d \<le> d'
      \<longrightarrow> efficiency a' L' d' \<le> efficiency a L d)
   \<and> efficiency a L d \<le> 99.0
   \<and> efficiency a L 0 \<le> 98.0"
proof (intro conjI impI)
  assume h: "\<bar>target_optimal L - real a\<bar> \<le> \<bar>target_optimal L' - real a'\<bar> \<and> d \<le> d'"
  then have "angle_deviation_loss (target_optimal L) a
               \<le> angle_deviation_loss (target_optimal L') a'"
    by (simp add: angle_deviation_loss_def)
  with h show "efficiency a' L' d' \<le> efficiency a L d"
    unfolding efficiency_dev max_def min_def by auto
next
  show "efficiency a L d \<le> 99.0"
    by (simp add: efficiency_def)
next
  show "efficiency a L 0 \<le> 98.0"
    using angle_deviation_loss_nonneg [of "target_optimal L" a]
    unfolding efficiency_dev max_def min_def by auto
qed

theorem efficiency_monotone_bounded_witness:
  "\<bar>target_optimal 0 - real 3\<bar> \<le> \<bar>target_optimal 0 - real 5\<bar> \<and> (0::real) \<le> 20
   \<and> efficiency 5 0 20 \<le> efficiency 3 0 0"
proof -
  have h: "\<bar>target_optimal 0 - real 3\<bar> \<le> \<bar>target_optimal 0 - real 5\<bar> \<and> (0::real) \<le> 20"
    by (simp add: target_optimal_def)
  with efficiency_monotone_bounded [of 0 3 0 5 0 20] show ?thesis
    by blast
qed

subsection \<open>The angle search\<close>

lemma search_upto_Suc:
  "search_upto (Suc n) L d = search_step L d (search_upto n L d) n"
  by (simp add: search_upto_def)

lemma search_upto_1: "search_upto (Suc 0) L d = (0, efficiency 0 L d)"
  using efficiency_nonneg [of 0 L d]
  by (simp add: search_upto_def search_step_def)

lemma search_inv_step:
  assumes "search_inv n L d best"
  shows "search_inv (Suc n) L d (search_step L d best n)"
proof (cases "efficiency n L d > snd best")
  case True
  with assms show ?thesis
    by (auto simp: search_inv_def search_step_def less_Suc_eq)
next
  case False
  with assms show ?thesis
    by (auto simp: search_inv_def search_step_def less_Suc_eq)
qed

lemma search_inv_upto: "search_inv (Suc n) L d (search_upto (Suc n) L d)"
proof (induction n)
  case 0
  show ?case by (simp add: search_upto_1 search_inv_def)
next
  case (Suc n)
  from search_inv_step [OF Suc] show ?case
    by (simp only: search_upto_Suc [of "Suc n"])
qed

lemma search_inv_search: "search_inv 91 L d (search L d)"
  using search_inv_upto [of 90 L d] by (simp add: search_def)

lemma search_inv_unique:
  assumes "search_inv n L d b1" and "search_inv n L d b2"
  shows "b1 = b2"
proof -
  have "\<not> fst b1 < fst b2" "\<not> fst b2 < fst b1"
    using assms unfolding search_inv_def by (metis not_le)+
  then have "fst b1 = fst b2" by simp
  with assms show ?thesis
    by (simp add: search_inv_def prod_eq_iff)
qed

lemma search_eqI:
  assumes "a0 \<le> 90"
    and "\<And>a. a \<le> 90 \<Longrightarrow> efficiency a L d \<le> efficiency a0 L d"
    and "\<And>a. a < a0 \<Longrightarrow> efficiency a L d < efficiency a0 L d"
  shows "search L d = (a0, efficiency a0 L d)"
proof -
  have "search_inv 91 L d (a0, efficiency a0 L d)"
    using assms by (simp add: search_inv_def less_Suc_eq_le)
  with search_inv_search show ?thesis
    by (rule search_inv_unique)
qed

lemma search_Max: "snd (search L d) = Max ((\<lambda>a. efficiency a L d) ` {..90})"
proof (rule Max_eqI [symmetric])
  show "finite ((\<lambda>a. efficiency a L d) ` {..90})" by simp
next
  fix y assume "y \<in> (\<lambda>a. efficiency a L d) ` {..90}"
  then show "y \<le> snd (search L d)"
    using search_inv_search [of L d] by (auto simp: search_inv_def less_Suc_eq_le)
next
  show "snd (search L d) \<in> (\<lambda>a. efficiency a L d) ` {..90}"
    using search_inv_search [of L d] by (auto simp: search_inv_def less_Suc_eq_le)
qed

lemma search_Min:
  "fst (search L d) = Min {a. a \<le> 90 \<and> efficiency a L d = snd (search L d)}"
proof (rule Min_eqI [symmetric])
  show "finite {a. a \<le> 90 \<and> efficiency a L d = snd (search L d)}" by simp
next
  fix y assume "y \<in> {a. a \<le> 90 \<and> efficiency a L d = snd (search L d)}"
  then show "fst (search L d) \<le> y"
    using search_inv_search [of L d] by (fastforce simp: search_inv_def not_less [symmetric])
next
  show "fst (search L d) \<in> {a. a \<le> 90 \<and> efficiency a L d = snd (search L d)}"
    using search_inv_search [of L d] by (auto simp: search_inv_def less_Suc_eq_le)
qed

text \<open>
  C2. For every latitude and condition loss, the efficiency returned by the search
  is the maximum of the clamped efficiency over the angles 0 to 90, and the angle
  returned is the smallest angle of that range reaching the maximum: among tied
  angles the lowest wins.
\<close>

theorem search_smallest_argmax:
  "snd (search L d) = Max ((\<lambda>a. efficiency a L d) ` {..90})
   \<and> fst (search L d)
       = Min {a. a \<le> 90 \<and> efficiency a L d = Max ((\<lambda>a. efficiency a L d) ` {..90})}"
  using search_Min [of L d] by (simp only: search_Max [symmetric] simp_thms)



text \<open>
  At latitude \<open>10/19\<close> the target angle is \<open>3.5\<close>: the angles 3 and 4 tie, and the
  search returns 3.
\<close>

theorem search_smallest_argmax_witness:
  "efficiency 3 (10/19) 0 = efficiency 4 (10/19) 0 \<and> search (10/19) 0 = (3, 97.8)"
proof -
  let ?e = "\<lambda>a. efficiency a (10/19) 0"
  have e3: "?e 3 = 97.8" and e4: "?e 4 = 97.8"
    by (simp_all add: efficiency_unfold)
  have le: "?e a \<le> 97.8" for a
  proof (cases "a \<le> 3")
    case True
    then have "real a \<le> 3" by simp
    then show ?thesis by (simp add: efficiency_unfold max_def min_def abs_if)
  next
    case False
    then have "4 \<le> real a" by simp
    then show ?thesis by (simp add: efficiency_unfold max_def min_def abs_if)
  qed
  have less: "?e a < 97.8" if "a < 3" for a
  proof -
    from that have "real a \<le> 2" by simp
    then show ?thesis by (simp add: efficiency_unfold max_def min_def abs_if)
  qed
  have M: "Max (?e ` {..90}) = 97.8"
  proof (rule Max_eqI)
    have "?e 3 \<in> ?e ` {..90}"
      by (rule imageI) simp
    then show "97.8 \<in> ?e ` {..90}"
      by (simp only: e3)
  qed (use le in auto)
  have "Min {a. a \<le> 90 \<and> ?e a = 97.8} = 3"
  proof (rule Min_eqI)
    fix y assume "y \<in> {a. a \<le> 90 \<and> ?e a = 97.8}"
    with less [of y] show "3 \<le> y" by (cases "y < 3") auto
  qed (use e3 in auto)
  with search_smallest_argmax [of "10/19" 0] M have "search (10/19) 0 = (3, 97.8)"
    by (simp add: prod_eq_iff)
  with e3 e4 show ?thesis by simp
qed

lemma str_nat_digit: "n < 10 \<Longrightarrow> str_nat n = [digit_char n]"
  by (simp add: str_nat.simps)

lemma compute_best_angle_present:
  "fst (compute_best_angle client (Some img) (Some lat) w) =
     (let defect = fst (classify_image client (Some img) w);
          r = search lat (real_of_int (DEFECT_LOSS_get defect 0))
      in (str_nat (fst r) @ [degree_sign], title defect, round2 (snd r)))"
  by (simp add: compute_best_angle_def Let_def split: prod.splits)

lemma efficiency_3_0_0: "efficiency 3 0 0 = 97.96"
  by (simp add: efficiency_unfold)

lemma search_0_0: "search 0 0 = (3, 97.96)"
proof -
  have le: "efficiency a 0 0 \<le> efficiency 3 0 0" for a
  proof (cases "a \<le> 3")
    case True
    then have "real a \<le> 3" by simp
    then show ?thesis by (simp add: efficiency_unfold max_def min_def abs_if)
  next
    case False
    then have "4 \<le> real a" by simp
    then show ?thesis by (simp add: efficiency_unfold max_def min_def abs_if)
  qed
  have less: "efficiency a 0 0 < efficiency 3 0 0" if "a < 3" for a
  proof -
    from that have "real a \<le> 2" by simp
    then show ?thesis by (simp add: efficiency_unfold max_def min_def abs_if)
  qed
  have "search 0 0 = (3, efficiency 3 0 0)"
    by (rule search_eqI) (simp_all add: le less)
  then show ?thesis by (simp only: efficiency_3_0_0)
qed

lemmas string_eval =
  DEFECT_LOSS_keys_def DEFECT_LOSS_def lower_def strip_def is_space_def whitespace_def
  lower_char_def upper_char_def is_cased_def ascii_uppercase_def ascii_lowercase_def
  title_def

lemma normalize_clean: "normalize_text (Some ''clean'') = ''clean''"
  by (simp add: normalize_text_def string_eval)

lemma title_clean: "title ''clean'' = ''Clean''"
  by (simp add: string_eval)

lemma DEFECT_LOSS_get_clean: "DEFECT_LOSS_get ''clean'' dflt = 0"
  by (simp add: DEFECT_LOSS_get_def DEFECT_LOSS_def)

lemma round2_9796: "round2 (2449 / 25) = 2449 / 25"
  by (simp add: round2_def)

text \<open>
  C8. At latitude 0 with condition clean (loss 0) the target angle is 3.1, the search
  selects the angle 3, and the efficiency is \<open>98 - 0.4 * 0.1 = 97.96\<close>, also after
  rounding in the result of \<^verbatim>\<open>compute_best_angle\<close>.
\<close>

theorem latitude_0_clean:
  "target_optimal 0 = 3.1
   \<and> search 0 (real_of_int (DEFECT_LOSS_get ''clean'' 0)) = (3, 97.96)
   \<and> (98 - 0.4 * 0.1 :: real) = 97.96
   \<and> fst (compute_best_angle (\<lambda>_. Response (Some ''clean'')) (Some img) (Some 0) w)
       = (''3'' @ [degree_sign], ''Clean'', 97.96)"
proof (intro conjI)
  show "target_optimal 0 = 3.1" by (simp add: target_optimal_def)
  show "search 0 (real_of_int (DEFECT_LOSS_get ''clean'' 0)) = (3, 97.96)"
    by (simp add: DEFECT_LOSS_get_clean search_0_0)
  show "(98 - 0.4 * 0.1 :: real) = 97.96" by simp
  have "fst (classify_image (\<lambda>_. Response (Some ''clean'')) (Some img) w) = ''clean''"
    by (simp add: classify_image_def normalize_clean)
  then show "fst (compute_best_angle (\<lambda>_. Response (Some ''clean'')) (Some img) (Some 0) w)
       = (''3'' @ [degree_sign], ''Clean'', 97.96)"
    by (simp add: compute_best_angle_present DEFECT_LOSS_get_clean search_0_0 title_clean
        round2_9796 str_nat_digit digit_char_def)
qed


subsection \<open>Classification\<close>

lemma startswith_iff: "startswith s k \<longleftrightarrow> (\<exists>post. s = k @ post)"
  by (induction s k rule: startswith.induct) auto

lemma str_in_iff: "str_in k s \<longleftrightarrow> (\<exists>pre post. s = pre @ k @ post)"
proof (induction s)
  case Nil
  show ?case by auto
next
  case (Cons c cs)
  have "(\<exists>pre post. c # cs = pre @ k @ post)
          \<longleftrightarrow> (\<exists>post. c # cs = k @ post) \<or> (\<exists>pre post. cs = pre @ k @ post)"
    (is "?l \<longleftrightarrow> ?r")
  proof
    assume ?l
    then obtain pre post where eq: "c # cs = pre @ k @ post" by blast
    show ?r
    proof (cases pre)
      case Nil
      with eq show ?thesis by auto
    next
      case (Cons p ps)
      with eq have "cs = ps @ k @ post" by simp
      then show ?thesis by blast
    qed
  next
    assume ?r
    then show ?l
    proof
      assume "\<exists>post. c # cs = k @ post"
      then obtain post where "c # cs = [] @ k @ post" by auto
      then show ?l by blast
    next
      assume "\<exists>pre post. cs = pre @ k @ post"
      then obtain pre post where "c # cs = (c # pre) @ k @ post" by auto
      then show ?l by blast
    qed
  qed
  with Cons show ?case by (simp add: startswith_iff)
qed

lemma match_label_find:
  "match_label ks label =
     (case find (\<lambda>k. str_in k label) ks of Some k \<Rightarrow> k | None \<Rightarrow> ''clean'')"
  by (induction ks) auto

lemma match_label_in: "match_label ks label \<in> insert ''clean'' (set ks)"
  by (induction ks) auto

lemma clean_is_key: "''clean'' \<in> set DEFECT_LOSS_keys"
  by (simp add: DEFECT_LOSS_keys_def DEFECT_LOSS_def)

lemma normalize_text_key: "normalize_text text \<in> set DEFECT_LOSS_keys"
proof -
  have "match_label DEFECT_LOSS_keys l \<in> set DEFECT_LOSS_keys" for l
    using match_label_in [of DEFECT_LOSS_keys l] clean_is_key by auto
  with clean_is_key show ?thesis
    by (simp add: normalize_text_def split: option.splits)
qed

lemma classify_image_key: "fst (classify_image client image_opt w) \<in> set DEFECT_LOSS_keys"
  using normalize_text_key clean_is_key
  by (simp add: classify_image_def Let_def split: option.splits upstream.splits)

lemma normalize_text_empty: "normalize_text (Some []) = match_label DEFECT_LOSS_keys (lower (strip []))"
  by (simp add: normalize_text_def string_eval)

text \<open>
  C4. For every raw text of the classifier, the label is the first key of the
  defect-loss table, in the table's order, that occurs as a substring of the
  lower-cased and trimmed text, and \<open>clean\<close> when no key occurs (which covers the
  empty text) or the text is absent. The raw text \<open>Dusty Panel\<close> gives \<open>dusty\<close>,
  whose loss is 20.
\<close>

theorem normalize_first_matching_key:
  "normalize_text (Some raw)
     = (case find (\<lambda>key. \<exists>pre post. lower (strip raw) = pre @ key @ post) DEFECT_LOSS_keys of
          Some key \<Rightarrow> key
        | None \<Rightarrow> ''clean'')
   \<and> normalize_text None = ''clean''
   \<and> normalize_text (Some ''Dusty Panel'') = ''dusty''
   \<and> DEFECT_LOSS_get ''dusty'' 0 = 20"
proof (intro conjI)
  have "normalize_text (Some raw) = match_label DEFECT_LOSS_keys (lower (strip raw))"
    using normalize_text_empty by (cases "raw = []") (simp_all add: normalize_text_def)
  then show "normalize_text (Some raw)
     = (case find (\<lambda>key. \<exists>pre post. lower (strip raw) = pre @ key @ post) DEFECT_LOSS_keys of
          Some key \<Rightarrow> key
        | None \<Rightarrow> ''clean'')"
    by (simp only: match_label_find str_in_iff)
  show "normalize_text None = ''clean''"
    by (simp add: normalize_text_def)
  show "normalize_text (Some ''Dusty Panel'') = ''dusty''"
    by (simp add: normalize_text_def string_eval)
  show "DEFECT_LOSS_get ''dusty'' 0 = 20"
    by (simp add: DEFECT_LOSS_get_def DEFECT_LOSS_def)
qed

text \<open>
  C3. When the image or the latitude is absent, \<^verbatim>\<open>compute_best_angle\<close> returns the
  triple \<open>("No input", "N/A", 0)\<close> and leaves the world as it was: no request was
  sent to the classifier.
\<close>

theorem missing_input_sentinel:
  "image_opt = None \<or> latitude_opt = None \<Longrightarrow>
   compute_best_angle client image_opt latitude_opt w = ((''No input'', ''N/A'', 0), w)"
  by (auto simp: compute_best_angle_def split: option.splits)

text \<open>
  The two scenarios of the specification: no image with latitude 28, and an image
  with no latitude.
\<close>

theorem missing_input_sentinel_witness:
  "compute_best_angle (\<lambda>i::nat. Response (Some ''dusty'')) None (Some 28)
     \<lparr>requests = [], stdout = []\<rparr>
     = ((''No input'', ''N/A'', 0), \<lparr>requests = [], stdout = []\<rparr>)
   \<and> compute_best_angle (\<lambda>i::nat. Response (Some ''dusty'')) (Some 7) None
     \<lparr>requests = [], stdout = []\<rparr>
     = ((''No input'', ''N/A'', 0), \<lparr>requests = [], stdout = []\<rparr>)"
  using missing_input_sentinel [of None "Some 28" "\<lambda>i::nat. Response (Some ''dusty'')"
      "\<lparr>requests = [], stdout = []\<rparr>"]
    missing_input_sentinel [of "Some (7::nat)" None "\<lambda>i::nat. Response (Some ''dusty'')"
      "\<lparr>requests = [], stdout = []\<rparr>"]
  by simp

text \<open>
  C10. Whatever the image and the behaviour of the remote model,
  \<^verbatim>\<open>classify_image\<close> returns a key of the defect-loss table: \<open>clean\<close> on an absent
  image, an absent or empty text, or an exception. The lookup in
  \<^verbatim>\<open>compute_best_angle\<close> therefore finds an entry, whatever default is passed.
\<close>

theorem classify_image_always_key:
  "fst (classify_image client image_opt w) \<in> set DEFECT_LOSS_keys
   \<and> map_of DEFECT_LOSS (fst (classify_image client image_opt w))
       = Some (DEFECT_LOSS_get (fst (classify_image client image_opt w)) dflt)
   \<and> fst (classify_image client None w) = ''clean''
   \<and> fst (classify_image (\<lambda>_. Response None) (Some img) w) = ''clean''
   \<and> fst (classify_image (\<lambda>_. Response (Some [])) (Some img) w) = ''clean''
   \<and> fst (classify_image (\<lambda>_. Raised e) (Some img) w) = ''clean''"
proof (intro conjI)
  show k: "fst (classify_image client image_opt w) \<in> set DEFECT_LOSS_keys"
    by (rule classify_image_key)
  then obtain v where "map_of DEFECT_LOSS (fst (classify_image client image_opt w)) = Some v"
    unfolding DEFECT_LOSS_keys_def by (metis domIff dom_map_of_conv_image_fst not_Some_eq set_map)
  then show "map_of DEFECT_LOSS (fst (classify_image client image_opt w))
       = Some (DEFECT_LOSS_get (fst (classify_image client image_opt w)) dflt)"
    by (simp add: DEFECT_LOSS_get_def)
qed (simp_all add: classify_image_def normalize_text_def)


lemma match_label_no_match:
  "\<forall>k\<in>set ks. \<not> str_in k label \<Longrightarrow> match_label ks label = ''clean''"
  by (induction ks) auto

lemma normalize_text_no_match:
  assumes "\<forall>k\<in>set DEFECT_LOSS_keys. \<not> str_in k (lower (strip t))"
  shows "normalize_text (Some t) = ''clean''"
  using match_label_no_match [OF assms] by (simp add: normalize_text_def)

lemma search_28_0: "search 28 0 = (24, 97.848)"
proof -
  have e: "efficiency 24 28 0 = 97.848"
    by (simp add: efficiency_unfold)
  have le: "efficiency a 28 0 \<le> efficiency 24 28 0" for a
  proof (cases "a \<le> 24")
    case True
    then have "real a \<le> 24" by simp
    then show ?thesis by (simp add: efficiency_unfold max_def min_def abs_if)
  next
    case False
    then have "25 \<le> real a" by simp
    then show ?thesis by (simp add: efficiency_unfold max_def min_def abs_if)
  qed
  have less: "efficiency a 28 0 < efficiency 24 28 0" if "a < 24" for a
  proof -
    from that have "real a \<le> 23" by simp
    then show ?thesis by (simp add: efficiency_unfold max_def min_def abs_if)
  qed
  have "search 28 0 = (24, efficiency 24 28 0)"
    by (rule search_eqI) (simp_all add: le less)
  then show ?thesis by (simp only: e)
qed

lemma str_nat_24: "str_nat 24 = ''24''"
  by (simp add: str_nat.simps digit_char_def)

lemma round2_97848: "round2 (12231 / 125) = 1957 / 20"
  by (simp add: round2_def)

text \<open>
  C5. When the remote call raises, \<^verbatim>\<open>classify_image\<close> prints the error and
  returns \<open>clean\<close>, whose loss is 0; \<^verbatim>\<open>compute_best_angle\<close> then returns the
  result of the search at loss 0, the same result as for a text in which no key
  occurs.
\<close>

theorem classification_error_degrades_to_clean:
  assumes "client img = Raised e"
    and "\<forall>k\<in>set DEFECT_LOSS_keys. \<not> str_in k (lower (strip t))"
  shows "fst (classify_image client (Some img) w) = ''clean''
   \<and> DEFECT_LOSS_get (fst (classify_image client (Some img) w)) 0 = 0
   \<and> stdout (snd (classify_image client (Some img) w))
       = stdout w @ [''Error during classification: '' @ e]
   \<and> fst (compute_best_angle client (Some img) (Some lat) w)
       = (str_nat (fst (search lat 0)) @ [degree_sign], ''Clean'', round2 (snd (search lat 0)))
   \<and> fst (compute_best_angle client (Some img) (Some lat) w)
       = fst (compute_best_angle (\<lambda>_. Response (Some t)) (Some img) (Some lat) w)"
proof -
  have c: "fst (classify_image client (Some img) w) = ''clean''"
    using assms(1) by (simp add: classify_image_def)
  have p: "stdout (snd (classify_image client (Some img) w))
       = stdout w @ [''Error during classification: '' @ e]"
    using assms(1) by (simp add: classify_image_def)
  have n: "fst (classify_image (\<lambda>_. Response (Some t)) (Some img) w) = ''clean''"
    using normalize_text_no_match [OF assms(2)] by (simp add: classify_image_def)
  have r: "fst (compute_best_angle client (Some img) (Some lat) w)
       = (str_nat (fst (search lat 0)) @ [degree_sign], ''Clean'', round2 (snd (search lat 0)))"
    by (simp add: compute_best_angle_present c DEFECT_LOSS_get_clean title_clean Let_def)
  have "fst (compute_best_angle (\<lambda>_. Response (Some t)) (Some img) (Some lat) w)
       = (str_nat (fst (search lat 0)) @ [degree_sign], ''Clean'', round2 (snd (search lat 0)))"
    by (simp add: compute_best_angle_present n DEFECT_LOSS_get_clean title_clean Let_def)
  with c p r show ?thesis
    by (simp add: DEFECT_LOSS_get_clean)
qed

text \<open>
  A timeout at latitude 28 and the unknown text \<open>Cracked Glass\<close> both give angle 24,
  condition Clean and efficiency 97.85.
\<close>

theorem classification_error_degrades_to_clean_witness:
  "find (\<lambda>k. str_in k (lower (strip ''Cracked Glass''))) DEFECT_LOSS_keys = None
   \<and> fst (compute_best_angle (\<lambda>i::nat. Raised ''timeout'') (Some 7) (Some 28)
            \<lparr>requests = [], stdout = []\<rparr>)
       = (''24'' @ [degree_sign], ''Clean'', 97.85)
   \<and> fst (compute_best_angle (\<lambda>i::nat. Response (Some ''Cracked Glass'')) (Some 7) (Some 28)
            \<lparr>requests = [], stdout = []\<rparr>)
       = (''24'' @ [degree_sign], ''Clean'', 97.85)
   \<and> stdout (snd (classify_image (\<lambda>i::nat. Raised ''timeout'') (Some 7)
            \<lparr>requests = [], stdout = []\<rparr>))
       = [''Error during classification: timeout'']"
proof -
  have h2: "\<forall>k\<in>set DEFECT_LOSS_keys. \<not> str_in k (lower (strip ''Cracked Glass''))"
    by (simp add: string_eval)
  note T = classification_error_degrades_to_clean
    [where client = "\<lambda>i::nat. Raised ''timeout''" and img = 7 and e = "''timeout''"
       and t = "''Cracked Glass''" and w = "\<lparr>requests = [], stdout = []\<rparr>" and lat = 28,
     OF refl h2]
  have a: "fst (compute_best_angle (\<lambda>i::nat. Raised ''timeout'') (Some 7) (Some 28)
            \<lparr>requests = [], stdout = []\<rparr>) = (''24'' @ [degree_sign], ''Clean'', 97.85)"
    using T by (simp add: search_28_0 str_nat_24 round2_97848)
  have "fst (compute_best_angle (\<lambda>i::nat. Raised ''timeout'') (Some 7) (Some 28)
            \<lparr>requests = [], stdout = []\<rparr>)
          = fst (compute_best_angle (\<lambda>i::nat. Response (Some ''Cracked Glass'')) (Some 7) (Some 28)
            \<lparr>requests = [], stdout = []\<rparr>)"
    using T by blast
  from trans [OF this [symmetric] a]
  have b: "fst (compute_best_angle (\<lambda>i::nat. Response (Some ''Cracked Glass'')) (Some 7) (Some 28)
            \<lparr>requests = [], stdout = []\<rparr>) = (''24'' @ [degree_sign], ''Clean'', 97.85)" .
  have c: "stdout (snd (classify_image (\<lambda>i::nat. Raised ''timeout'') (Some 7)
            \<lparr>requests = [], stdout = []\<rparr>))
       = [''Error during classification: timeout'']"
    using T by simp
  from h2 have "find (\<lambda>k. str_in k (lower (strip ''Cracked Glass''))) DEFECT_LOSS_keys = None"
    by (simp only: find_None_iff not_ex de_Morgan_conj not_not) blast
  with a b c show ?thesis
    by (simp only: simp_thms)
qed

end
